theory Spec2Isabelle
  imports Main
begin

section \<open>Go strings\<close>



text \<open>
  The table \<open>asciiSpace\<close> of package \<open>strings\<close>:
  \<^verbatim>\<open>'\t': 1, '\n': 1, '\v': 1, '\f': 1, '\r': 1, ' ': 1\<close>.
\<close>

definition asciiSpace :: "char \<Rightarrow> bool" where
  "asciiSpace c =
     (c = CHR 0x09 \<or> c = CHR 0x0A \<or> c = CHR 0x0B \<or> c = CHR 0x0C \<or> c = CHR 0x0D
      \<or> c = CHR '' '')"

text \<open>
  \<open>strings.ToLower\<close>, the loop over the bytes:
  \<^verbatim>\<open>if 'A' <= c && c <= 'Z' { c += 'a' - 'A' }\<close>.
\<close>

definition toLower_byte :: "char \<Rightarrow> char" where
  "toLower_byte c =
     (if (of_char (CHR ''A'') :: nat) \<le> of_char c \<and> (of_char c :: nat) \<le> of_char (CHR ''Z'')
      then char_of ((of_char c :: nat) + (of_char (CHR ''a'') - of_char (CHR ''A'')))
      else c)"

definition ToLower :: "string \<Rightarrow> string" where
  "ToLower s = map toLower_byte s"

text \<open>
  \<open>strings.Replace(s, old, new, -1)\<close> for a pattern \<open>old\<close> of one byte, which is how
  \<open>normalizeDomains\<close> calls it (\<open>"@"\<close> and \<open>","\<close>): every occurrence is replaced.
\<close>

primrec Replace :: "string \<Rightarrow> char \<Rightarrow> string \<Rightarrow> string" where
  "Replace [] old new = []"
| "Replace (c # s) old new =
     (if c = old then new @ Replace s old new else c # Replace s old new)"

text \<open>\<open>strings.TrimSpace\<close>: the slice between the first and the last byte that is no space.\<close>

definition TrimSpace :: "string \<Rightarrow> string" where
  "TrimSpace s = rev (dropWhile asciiSpace (rev (dropWhile asciiSpace s)))"

text \<open>
  \<open>strings.Fields\<close>: one pass over the bytes. \<open>field\<close> is the slice
  \<open>s[fieldStart:i]\<close> of the Go loop, the bytes of the field being read; a space ends
  it, and spaces in front of a field are skipped.
\<close>

primrec scanFields :: "string \<Rightarrow> string \<Rightarrow> string list" where
  "scanFields field [] = (if field = [] then [] else [field])"
| "scanFields field (c # s) =
     (if asciiSpace c
      then (if field = [] then scanFields [] s else field # scanFields [] s)
      else scanFields (field @ [c]) s)"

definition Fields :: "string \<Rightarrow> string list" where
  "Fields s = scanFields [] s"

text \<open>
  \<open>strings.HasSuffix\<close>:
  \<^verbatim>\<open>len(s) >= len(suffix) && s[len(s)-len(suffix):] == suffix\<close>.
\<close>

definition HasSuffix :: "string \<Rightarrow> string \<Rightarrow> bool" where
  "HasSuffix s suffix =
     (length s \<ge> length suffix \<and> drop (length s - length suffix) s = suffix)"

text \<open>\<open>strings.Join(elems, sep)\<close>.\<close>

fun Join :: "string list \<Rightarrow> string \<Rightarrow> string" where
  "Join [] sep = []"
| "Join [x] sep = x"
| "Join (x # y # ys) sep = x @ sep @ Join (y # ys) sep"

section \<open>The domain restriction matcher (\<open>api4/team_local.go\<close>)\<close>

text \<open>
  \<^verbatim>\<open>
  func normalizeDomains(domains string) []string {
    return strings.Fields(strings.TrimSpace(strings.ToLower(
      strings.Replace(strings.Replace(domains, "@", " ", -1), ",", " ", -1))))
  }
  \<close>
\<close>

definition normalizeDomains :: "string \<Rightarrow> string list" where
  "normalizeDomains domains =
     Fields (TrimSpace (ToLower
       (Replace (Replace domains (CHR ''@'') '' '') (CHR '','') '' '')))"

text \<open>
  The inner loop of \<open>isEmailAddressAllowed\<close>: \<open>matched\<close> becomes true at the first
  domain \<open>d\<close> with \<open>strings.HasSuffix(email, "@"+d)\<close>, and the loop breaks there.
\<close>

primrec matchDomains :: "string \<Rightarrow> string list \<Rightarrow> bool" where
  "matchDomains email [] = False"
| "matchDomains email (d # ds) =
     (if HasSuffix email (''@'' @ d) then True else matchDomains email ds)"

text \<open>
  The outer loop: a restriction with no domain is skipped (\<open>continue\<close>), the first
  restriction that matches no domain returns false, the end of the loop returns true.
\<close>

primrec isEmailAddressAllowed :: "string \<Rightarrow> string list \<Rightarrow> bool" where
  "isEmailAddressAllowed email [] = True"
| "isEmailAddressAllowed email (restriction # rest) =
     (let domains = normalizeDomains restriction in
      if length domains \<le> 0 then isEmailAddressAllowed email rest
      else if \<not> matchDomains email domains then False
      else isEmailAddressAllowed email rest)"

section \<open>The invitation handler (\<open>api4/team_local.go\<close>)\<close>

subsection \<open>Data\<close>

text \<open>
  The types of package \<open>model\<close> are declared outside the files at hand; each is a
  record of the fields this code reads or writes. \<open>model.NewAppError(where, id, params,
  details, status)\<close> stores its five arguments (the translated message is left out); the
  parameter map holds at most one key here and is an association list.
\<close>

record AppError =
  Where :: string
  AppError_Id :: string
  params :: "(string \<times> string) list"
  DetailedError :: string
  StatusCode :: nat

definition NewAppError ::
  "string \<Rightarrow> string \<Rightarrow> (string \<times> string) list \<Rightarrow> string \<Rightarrow> nat \<Rightarrow> AppError" where
  "NewAppError place ident ps details status =
     \<lparr>Where = place, AppError_Id = ident, params = ps, DetailedError = details,
      StatusCode = status\<rparr>"

text \<open>The status codes of \<open>net/http\<close> that the handler passes.\<close>

definition StatusBadRequest :: nat where "StatusBadRequest = 400"
definition StatusNotFound :: nat where "StatusNotFound = 404"
definition StatusRequestEntityTooLarge :: nat where "StatusRequestEntityTooLarge = 413"
definition StatusInternalServerError :: nat where "StatusInternalServerError = 500"
definition StatusNotImplemented :: nat where "StatusNotImplemented = 501"

record Team =
  Team_Id :: string
  AllowedDomains :: string

text \<open>\<open>model.EmailInviteWithError\<close>: \<open>Error\<close> is a pointer, \<open>None\<close> is \<open>nil\<close>.\<close>

record EmailInviteWithError =
  Email :: string
  Error :: "AppError option"

text \<open>
  What the team store's \<open>Get\<close> can fail with: \<open>errors.As(nErr, &nfErr)\<close> holds for
  \<open>ErrNotFound\<close>; the string is the text of \<open>Error()\<close>.
\<close>

datatype store_error = ErrNotFound string | StoreError string

text \<open>
  An error of \<open>SendInviteEmails\<close>, as the handler looks at it: whether
  \<open>errors.Is(err, email.NoRateLimiterError)\<close>, whether
  \<open>errors.Is(err, email.SetupRateLimiterError)\<close>, and its text (\<open>%v\<close>).
\<close>

record send_error =
  is_NoRateLimiterError :: bool
  is_SetupRateLimiterError :: bool
  error_text :: string

text \<open>
  One call of \<open>EmailService.SendInviteEmails(team, senderName, senderUserId, invites,
  siteURL, nil, false)\<close>; the last two arguments are the same constants at both call
  sites.
\<close>

record invite_call =
  team :: Team
  senderName :: string
  senderUserId :: string
  invites :: "string list"
  siteURL :: string

datatype audit_status = Fail | Success

datatype meta_value = MetaString string | MetaInt nat | MetaStrings "string list"

text \<open>
  The audit record. The handler adds each key once, so the metadata map is the list of
  its entries in the order they are added.
\<close>

record AuditRecord =
  Event :: string
  Status :: audit_status
  Meta :: "(string \<times> meta_value) list"

definition MakeAuditRecord :: "string \<Rightarrow> audit_status \<Rightarrow> AuditRecord" where
  "MakeAuditRecord name initial = \<lparr>Event = name, Status = initial, Meta = []\<rparr>"

definition AddMeta :: "AuditRecord \<Rightarrow> string \<Rightarrow> meta_value \<Rightarrow> AuditRecord" where
  "AddMeta rec name val = rec\<lparr>Meta := Meta rec @ [(name, val)]\<rparr>"

text \<open>
  What the handler reads from its context \<open>c\<close>: the error \<open>c.Err\<close> that
  \<open>c.RequireTeamId()\<close> leaves (\<open>None\<close> is \<open>nil\<close>), the configuration, the team id of
  the route, and the collaborators, each a function of its arguments: the format check
  \<open>model.IsValidEmail\<close>, the team store, the mail service, \<open>model.NewId\<close>,
  \<open>model.EmailInviteWithErrorToString\<close>, and the error of \<open>json.Marshal\<close> on the list of
  outcome records (\<open>None\<close> when it encodes).
\<close>

record Context =
  RequireTeamId :: "AppError option"
  EnableEmailInvitations :: bool
  RestrictCreationToDomains :: string
  SiteURL :: string
  Params_TeamId :: string
  IsValidEmail :: "string \<Rightarrow> bool"
  TeamStore_Get :: "string \<Rightarrow> store_error + Team"
  SendInviteEmails :: "invite_call \<Rightarrow> send_error option"
  NewId :: string
  EmailInviteWithErrorToString :: "EmailInviteWithError \<Rightarrow> string"
  jsonErr :: "EmailInviteWithError list \<Rightarrow> string option"

text \<open>
  The request: \<open>model.ArrayFromJSON(r.Body)\<close> and \<open>r.URL.Query().Get("graceful")\<close>.
\<close>

record Request =
  Body :: "string list"
  graceful :: string

text \<open>
  What the handler leaves behind: \<open>c.Err\<close> set to an error (\<open>Err\<close>),
  \<open>c.SetInvalidParam\<close> called (\<open>InvalidParam\<close>), \<open>ReturnStatusOK(w)\<close> (\<open>StatusOK\<close>), or
  the JSON encoding of the outcome records written to \<open>w\<close> (\<open>Written\<close>); the calls of
  \<open>SendInviteEmails\<close> it made; and the audit record that the deferred
  \<open>c.LogAuditRec\<close> logs (\<open>None\<close> when the handler returns before it makes one).
\<close>

datatype outcome =
  Err AppError
| InvalidParam string
| StatusOK
| Written "EmailInviteWithError list"

record Result =
  outcome :: outcome
  calls :: "invite_call list"
  audit :: "AuditRecord option"

subsection \<open>The handler\<close>

text \<open>
  Lines 84 to 91: each address is lowercased and checked; the first address whose
  lowercased form is not a valid email ends the loop (\<open>Inl\<close>, with that address).
\<close>

primrec validateEmails :: "(string \<Rightarrow> bool) \<Rightarrow> string list \<Rightarrow> string + string list" where
  "validateEmails valid [] = Inr []"
| "validateEmails valid (raw # rest) =
     (let email = ToLower raw in
      if \<not> valid email then Inl email
      else (case validateEmails valid rest of
              Inl bad \<Rightarrow> Inl bad
            | Inr emailList \<Rightarrow> Inr (email # emailList)))"

text \<open>
  The \<open>switch\<close> on the error of \<open>SendInviteEmails\<close>, the same text in both branches of
  the handler (lines 133 to 140 and 166 to 173).
\<close>

definition SendInviteEmails_error :: "Team \<Rightarrow> send_error \<Rightarrow> AppError" where
  "SendInviteEmails_error t err =
     (if is_NoRateLimiterError err then
        NewAppError ''SendInviteEmails'' ''app.email.no_rate_limiter.app_error'' []
          (''team_id='' @ Team_Id t) StatusInternalServerError
      else if is_SetupRateLimiterError err then
        NewAppError ''SendInviteEmails'' ''app.email.setup_rate_limiter.app_error'' []
          (''team_id='' @ Team_Id t @ '', error='' @ error_text err) StatusInternalServerError
      else
        NewAppError ''SendInviteEmails'' ''app.email.rate_limit_exceeded.app_error'' []
          (''team_id='' @ Team_Id t @ '', error='' @ error_text err)
          StatusRequestEntityTooLarge)"

definition mailCall :: "Context \<Rightarrow> Team \<Rightarrow> string list \<Rightarrow> invite_call" where
  "mailCall c t emails =
     \<lparr>team = t, senderName = ''Administrator'', senderUserId = ''mmctl '' @ NewId c,
      invites = emails, siteURL = SiteURL c\<rparr>"

text \<open>
  The loop of the graceful branch (lines 116 to 128), with its three slices
  \<open>invitesWithErrors\<close>, \<open>goodEmails\<close> and \<open>errList\<close>.
\<close>

fun gracefulLoop ::
  "(EmailInviteWithError \<Rightarrow> string) \<Rightarrow> string list \<Rightarrow> string list \<Rightarrow>
   EmailInviteWithError list \<times> string list \<times> string list \<Rightarrow>
   EmailInviteWithError list \<times> string list \<times> string list" where
  "gracefulLoop toString allowedDomains [] acc = acc"
| "gracefulLoop toString allowedDomains (email # rest) (invitesWithErrors, goodEmails, errList) =
     (let invite = \<lparr>Email = email, Error = None\<rparr> in
      if \<not> isEmailAddressAllowed email allowedDomains then
        (let invite = invite\<lparr>Error := Some
               (NewAppError ''localInviteUsersToTeam''
                  ''api.team.invite_members.invalid_email.app_error''
                  [(''Addresses'', email)] [] StatusBadRequest)\<rparr> in
         gracefulLoop toString allowedDomains rest
           (invitesWithErrors @ [invite], goodEmails, errList @ [toString invite]))
      else
        gracefulLoop toString allowedDomains rest
          (invitesWithErrors @ [invite], goodEmails @ [email], errList))"

text \<open>Lines 145 to 150, and \<open>auditRec.Success()\<close> at the end of the handler.\<close>

definition writeInvites ::
  "Context \<Rightarrow> EmailInviteWithError list \<Rightarrow> invite_call list \<Rightarrow> AuditRecord \<Rightarrow> Result" where
  "writeInvites c invitesWithErrors sent auditRec =
     (case jsonErr c invitesWithErrors of
        Some msg \<Rightarrow>
          \<lparr>outcome = Err (NewAppError ''localInviteUsersToTeam'' ''api.marshal_error'' [] msg
             StatusInternalServerError),
           calls = sent, audit = Some auditRec\<rparr>
      | None \<Rightarrow>
          \<lparr>outcome = Written invitesWithErrors, calls = sent,
           audit = Some (auditRec\<lparr>Status := Success\<rparr>)\<rparr>)"

text \<open>The graceful branch, lines 114 to 150.\<close>

definition inviteGraceful ::
  "Context \<Rightarrow> Team \<Rightarrow> string list \<Rightarrow> string list \<Rightarrow> AuditRecord \<Rightarrow> Result" where
  "inviteGraceful c t allowedDomains emailList auditRec0 =
     (case gracefulLoop (EmailInviteWithErrorToString c) allowedDomains emailList ([], [], []) of
        (invitesWithErrors, goodEmails, errList) \<Rightarrow>
          (let auditRec = AddMeta auditRec0 ''errors'' (MetaStrings errList) in
           if length goodEmails > 0 then
             (case SendInviteEmails c (mailCall c t goodEmails) of
                Some err \<Rightarrow>
                  \<lparr>outcome = Err (SendInviteEmails_error t err),
                   calls = [mailCall c t goodEmails], audit = Some auditRec\<rparr>
              | None \<Rightarrow> writeInvites c invitesWithErrors [mailCall c t goodEmails] auditRec)
           else writeInvites c invitesWithErrors [] auditRec))"

text \<open>The loop of the strict branch (lines 154 to 158).\<close>

fun strictLoop :: "string list \<Rightarrow> string list \<Rightarrow> string list \<Rightarrow> string list" where
  "strictLoop allowedDomains [] invalidEmailList = invalidEmailList"
| "strictLoop allowedDomains (email # rest) invalidEmailList =
     (if \<not> isEmailAddressAllowed email allowedDomains
      then strictLoop allowedDomains rest (invalidEmailList @ [email])
      else strictLoop allowedDomains rest invalidEmailList)"

text \<open>The strict branch, lines 152 to 176.\<close>

definition inviteStrict ::
  "Context \<Rightarrow> Team \<Rightarrow> string list \<Rightarrow> string list \<Rightarrow> AuditRecord \<Rightarrow> Result" where
  "inviteStrict c t allowedDomains emailList auditRec =
     (let invalidEmailList = strictLoop allowedDomains emailList [] in
      if length invalidEmailList > 0 then
        \<lparr>outcome = Err (NewAppError ''localInviteUsersToTeam''
             ''api.team.invite_members.invalid_email.app_error''
             [(''Addresses'', Join invalidEmailList '', '')] [] StatusBadRequest),
         calls = [], audit = Some auditRec\<rparr>
      else
        (case SendInviteEmails c (mailCall c t emailList) of
           Some err \<Rightarrow>
             \<lparr>outcome = Err (SendInviteEmails_error t err),
              calls = [mailCall c t emailList], audit = Some auditRec\<rparr>
         | None \<Rightarrow>
             \<lparr>outcome = StatusOK, calls = [mailCall c t emailList],
              audit = Some (auditRec\<lparr>Status := Success\<rparr>)\<rparr>))"

text \<open>
  Lines 93 to 97: the audit record, made with status \<open>audit.Fail\<close>, and its first three
  entries.
\<close>

definition inviteAuditRecord :: "Context \<Rightarrow> string list \<Rightarrow> AuditRecord" where
  "inviteAuditRecord c emailList =
     AddMeta (AddMeta (AddMeta
       (MakeAuditRecord ''localInviteUsersToTeam'' Fail)
       ''team_id'' (MetaString (Params_TeamId c)))
       ''count'' (MetaInt (length emailList)))
       ''emails'' (MetaStrings emailList)"

text \<open>
  \<open>localInviteUsersToTeam\<close>, lines 68 to 179: the checks in the order of the source,
  each early \<open>return\<close> a branch.
\<close>

definition localInviteUsersToTeam :: "Context \<Rightarrow> Request \<Rightarrow> Result" where
  "localInviteUsersToTeam c r =
     (case RequireTeamId c of
        Some e \<Rightarrow> \<lparr>outcome = Err e, calls = [], audit = None\<rparr>
      | None \<Rightarrow>
        if \<not> EnableEmailInvitations c then
          \<lparr>outcome = Err (NewAppError ''localInviteUsersToTeam''
               ''api.team.invite_members.disabled.app_error'' [] [] StatusNotImplemented),
           calls = [], audit = None\<rparr>
        else if length (Body r) = 0 then
          \<lparr>outcome = InvalidParam ''user_email'', calls = [], audit = None\<rparr>
        else
          (case validateEmails (IsValidEmail c) (Body r) of
             Inl email \<Rightarrow>
               \<lparr>outcome = Err (NewAppError ''localInviteUsersToTeam''
                    ''api.team.invite_members.invalid_email.app_error''
                    [(''Address'', email)] [] StatusBadRequest),
                calls = [], audit = None\<rparr>
           | Inr emailList \<Rightarrow>
               (let auditRec = inviteAuditRecord c emailList in
                case TeamStore_Get c (Params_TeamId c) of
                  Inl (ErrNotFound msg) \<Rightarrow>
                    \<lparr>outcome = Err (NewAppError ''localInviteUsersToTeam''
                         ''app.team.get.find.app_error'' [] msg StatusNotFound),
                     calls = [], audit = Some auditRec\<rparr>
                | Inl (StoreError msg) \<Rightarrow>
                    \<lparr>outcome = Err (NewAppError ''localInviteUsersToTeam''
                         ''app.team.get.finding.app_error'' [] msg StatusInternalServerError),
                     calls = [], audit = Some auditRec\<rparr>
                | Inr t \<Rightarrow>
                    (let allowedDomains = [AllowedDomains t, RestrictCreationToDomains c] in
                     if graceful r \<noteq> [] then inviteGraceful c t allowedDomains emailList auditRec
                     else inviteStrict c t allowedDomains emailList auditRec))))"

section \<open>The sidebar categories of a team member (\<open>api4/resolver_team_member.go\<close>)\<close>








section \<open>The preview of a post (\<open>model\<close>, the permalink file)\<close>

text \<open>
  \<open>Post\<close> and \<open>Channel\<close> by the fields \<open>NewPreviewPost\<close> reads; \<open>ChannelType\<close> is a
  string type. The arguments and the result are pointers (\<open>None\<close> is \<open>nil\<close>); reading a
  field through a \<open>nil\<close> pointer is a run-time panic, the \<open>Inl\<close> of the result.
\<close>

record Post =
  Post_Id :: string
  Message :: string

record Channel =
  DisplayName :: string
  Channel_Type :: string

record PreviewPost =
  PostID :: string
  PreviewPost_Post :: "Post option"
  ChannelDisplayName :: string
  ChannelType :: string

datatype panic = NilDereference

definition NewPreviewPost :: "Post option \<Rightarrow> Channel option \<Rightarrow> panic + PreviewPost option" where
  "NewPreviewPost post channel =
     (case post of
        None \<Rightarrow> Inr None
      | Some p \<Rightarrow>
          (case channel of
             None \<Rightarrow> Inl NilDereference
           | Some ch \<Rightarrow>
               Inr (Some \<lparr>PostID = Post_Id p, PreviewPost_Post = post,
                 ChannelDisplayName = DisplayName ch, ChannelType = Channel_Type ch\<rparr>)))"

section \<open>Restriction strings and their separators\<close>






section \<open>The vocabulary of the claims about the handler and the resolver\<close>

text \<open>
  The error of an address, or of a joined list of addresses, that the domain check
  rejects (lines 122 and 161).
\<close>

definition DomainRestricted :: "string \<Rightarrow> AppError" where
  "DomainRestricted addresses =
     NewAppError ''localInviteUsersToTeam'' ''api.team.invite_members.invalid_email.app_error''
       [(''Addresses'', addresses)] [] StatusBadRequest"




subsection \<open>A team, a context and a mail service without a rate limiter\<close>

definition exampleTeam :: Team where
  "exampleTeam = \<lparr>Team_Id = ''t1'', AllowedDomains = ''@a.com''\<rparr>"

definition exampleContext :: Context where
  "exampleContext =
     \<lparr>RequireTeamId = None, EnableEmailInvitations = True, RestrictCreationToDomains = [],
      SiteURL = ''http://localhost:8065'', Params_TeamId = ''t1'',
      IsValidEmail = (\<lambda>email. CHR ''@'' \<in> set email),
      TeamStore_Get = (\<lambda>teamId. if teamId = ''t1'' then Inr exampleTeam
                                  else Inl (ErrNotFound ''team not found'')),
      SendInviteEmails = (\<lambda>call. None), NewId = ''id0'',
      EmailInviteWithErrorToString = Email, jsonErr = (\<lambda>invitesWithErrors. None)\<rparr>"




subsection \<open>Two sidebar categories, a context of the resolver and a team member\<close>





section \<open>Facts about the string functions\<close>

lemmas go_strings_eval =
  normalizeDomains_def Fields_def TrimSpace_def ToLower_def toLower_byte_def
  asciiSpace_def HasSuffix_def char_of_def bit_Suc_0_iff



























section \<open>Facts about the handler\<close>


lemma validateEmails_valid:
  "list_all (\<lambda>raw. valid (ToLower raw)) raws \<Longrightarrow> validateEmails valid raws = Inr (map ToLower raws)"
  by (induction raws) (auto simp: Let_def)


lemma strictLoop_eq:
  "strictLoop rules emails invalidEmailList =
     invalidEmailList @ filter (\<lambda>e. \<not> isEmailAddressAllowed e rules) emails"
  by (induction emails arbitrary: invalidEmailList) simp_all

lemma mode_branch:
  assumes "RequireTeamId c = None" and "EnableEmailInvitations c" and "Body r \<noteq> []"
    and "list_all (\<lambda>raw. IsValidEmail c (ToLower raw)) (Body r)"
    and "TeamStore_Get c (Params_TeamId c) = Inr t"
  shows "localInviteUsersToTeam c r =
     (if graceful r \<noteq> []
      then inviteGraceful c t [AllowedDomains t, RestrictCreationToDomains c]
             (map ToLower (Body r)) (inviteAuditRecord c (map ToLower (Body r)))
      else inviteStrict c t [AllowedDomains t, RestrictCreationToDomains c]
             (map ToLower (Body r)) (inviteAuditRecord c (map ToLower (Body r))))"
  using assms
  by (simp add: localInviteUsersToTeam_def validateEmails_valid Let_def)


lemma inviteStrict_eq:
  "inviteStrict c t rules emails auditRec =
     (let rejected = filter (\<lambda>e. \<not> isEmailAddressAllowed e rules) emails
      in if rejected \<noteq> [] then
           \<lparr>outcome = Err (DomainRestricted (Join rejected '', '')), calls = [],
            audit = Some auditRec\<rparr>
         else (case SendInviteEmails c (mailCall c t emails) of
                 Some err \<Rightarrow> \<lparr>outcome = Err (SendInviteEmails_error t err),
                    calls = [mailCall c t emails], audit = Some auditRec\<rparr>
               | None \<Rightarrow> \<lparr>outcome = StatusOK, calls = [mailCall c t emails],
                    audit = Some (auditRec\<lparr>Status := Success\<rparr>)\<rparr>))"
  by (simp add: inviteStrict_def strictLoop_eq Let_def DomainRestricted_def)



lemma filter_all: "filter (\<lambda>e. \<not> P e) xs = [] \<Longrightarrow> filter P xs = xs"
  by (induction xs) (auto split: if_splits)

section \<open>Facts about the resolver\<close>








section \<open>The worked requests, evaluated\<close>

lemma exampleTeam_rules:
  "isEmailAddressAllowed email [AllowedDomains exampleTeam, RestrictCreationToDomains exampleContext]
     = HasSuffix email ''@a.com''"
  by (simp add: exampleTeam_def exampleContext_def normalizeDomains_def Fields_def TrimSpace_def
      ToLower_def toLower_byte_def asciiSpace_def)


lemma exampleContext_admits:
  "RequireTeamId exampleContext = None" "EnableEmailInvitations exampleContext"
  "TeamStore_Get exampleContext (Params_TeamId exampleContext) = Inr exampleTeam"
  "SendInviteEmails exampleContext call = None" "jsonErr exampleContext records = None"
  by (simp_all add: exampleContext_def)




section \<open>Graceful mode: one outcome record per address\<close>




section \<open>Strict mode: one rejected address fails the batch\<close>



section \<open>The matcher: every rule, some suffix\<close>



section \<open>Normalization does not depend on the separators\<close>



section \<open>A mail service without a rate limiter\<close>




section \<open>Graceful mode: a failed dispatch replaces the outcome records\<close>



section \<open>The sidebar categories follow the order list\<close>



section \<open>An address that is not a valid email fails the batch\<close>



section \<open>The matcher compares the address as it is given\<close>

text \<open>
  Claim C9. \<open>isEmailAddressAllowed\<close> lowercases the rules and not the address: the
  address \<open>user@A.com\<close> is refused under the rule \<open>a.com\<close> (and the rule \<open>A.com\<close>
  normalizes to it), its lowercased form \<open>user@a.com\<close> is accepted, and the handler,
  which lowercases every address before the check, dispatches \<open>user@a.com\<close>.
\<close>

theorem isEmailAddressAllowed_does_not_lowercase_address:
  "\<not> isEmailAddressAllowed ''user@A.com'' [''a.com'']
   \<and> isEmailAddressAllowed (ToLower ''user@A.com'') [''a.com'']
   \<and> ToLower ''user@A.com'' = ''user@a.com''
   \<and> normalizeDomains ''A.com'' = [''a.com'']
   \<and> calls (localInviteUsersToTeam exampleContext \<lparr>Body = [''user@A.com''], graceful = []\<rparr>)
       = [mailCall exampleContext exampleTeam [''user@a.com'']]"
proof -
  let ?q = "\<lparr>Body = [''user@A.com''], graceful = []\<rparr>"
  have lower: "ToLower ''user@A.com'' = ''user@a.com''"
    by (simp add: ToLower_def toLower_byte_def char_of_def bit_Suc_0_iff)
  have rule: "normalizeDomains ''a.com'' = [''a.com'']" "normalizeDomains ''A.com'' = [''a.com'']"
    by (simp_all add: go_strings_eval)
  have matcher: "\<not> isEmailAddressAllowed ''user@A.com'' [''a.com'']"
    "isEmailAddressAllowed ''user@a.com'' [''a.com'']"
    by (simp_all add: rule HasSuffix_def)
  have q: "Body ?q \<noteq> []"
    "list_all (\<lambda>raw. IsValidEmail exampleContext (ToLower raw)) (Body ?q)"
    by (simp_all add: exampleContext_def lower)
  have "calls (localInviteUsersToTeam exampleContext ?q)
      = [mailCall exampleContext exampleTeam [''user@a.com'']]"
    unfolding mode_branch [OF exampleContext_admits(1,2) q exampleContext_admits(3)]
    by (simp add: inviteStrict_eq Let_def lower exampleTeam_rules HasSuffix_def
        exampleContext_admits del: isEmailAddressAllowed.simps)
  with lower rule matcher show ?thesis by simp
qed

section \<open>The preview of a post and its \<open>nil\<close> arguments\<close>

text \<open>
  Claim C10. \<open>NewPreviewPost\<close> returns \<open>nil\<close> when the post is \<open>nil\<close>, whatever the
  channel is (also \<open>nil\<close>); for a post that is not \<open>nil\<close> it reads the channel's fields
  without a check: with a channel it builds the preview from the post's id, the post, and
  the channel's display name and type, and with a \<open>nil\<close> channel the read is a
  dereference of \<open>nil\<close>.
\<close>

theorem NewPreviewPost_nil_post_or_unguarded_channel:
  "NewPreviewPost None channel = Inr None
   \<and> NewPreviewPost (Some p) (Some ch) =
       Inr (Some \<lparr>PostID = Post_Id p, PreviewPost_Post = Some p,
         ChannelDisplayName = DisplayName ch, ChannelType = Channel_Type ch\<rparr>)
   \<and> NewPreviewPost (Some p) None = Inl NilDereference"
  by (simp add: NewPreviewPost_def)

end
